theory Spec2Isabelle
  imports Main "HOL-Library.AList"
begin

section \<open>The EmPOWER runtime registry (empower/core/core.py)\<close>

text \<open>
  The runtime keeps three dictionaries in memory (\<open>components\<close>, \<open>accounts\<close>,
  \<open>tenants\<close>) and mirrors accounts and tenants into an SQL store with the tables
  \<open>TblAccount\<close>, \<open>TblTenant\<close> and \<open>TblPendingTenant\<close>. A Python exception leaves
  behind whatever was written before it was raised, so every operation of the model
  returns its outcome together with the state it leaves: \<open>'a result \<times> world\<close>.
  Dictionaries are association lists in insertion order, which is the order Python
  iterates them in.
\<close>

subsection \<open>Exceptions\<close>

text \<open>
  \<open>ValueError\<close> carries the argument tuple of the \<open>raise\<close> statement, \<open>KeyError\<close> the
  missing key. \<open>IntegrityError\<close> and \<open>UnmappedInstanceError\<close> are what SQLAlchemy
  raises on a violated constraint and on \<open>session.delete(None)\<close>; \<open>AttributeError\<close> is
  Python's on a missing attribute; \<open>Exception\<close> stands for whatever a plugin hook raises.
\<close>

datatype error =
    ValueError "string list"
  | KeyError string
  | IntegrityError
  | UnmappedInstanceError
  | AttributeError string
  | Exception string

datatype 'a result = Return 'a | Raise error

subsection \<open>Rows and objects\<close>

type_synonym tenant_id = string

text \<open>Rows of \<open>TblAccount\<close>, \<open>TblTenant\<close> and \<open>TblPendingTenant\<close> (columns as the
  constructor calls of core.py name them).\<close>

record tbl_account =
  a_username :: string
  a_password :: string
  a_role :: string
  a_name :: string
  a_surname :: string
  a_email :: string

record tbl_tenant =
  t_tenant_id :: tenant_id
  t_tenant_name :: string
  t_owner :: string
  t_desc :: string

record tbl_pending_tenant =
  p_tenant_id :: tenant_id
  p_tenant_name :: string
  p_owner :: string
  p_desc :: string

text \<open>The in-memory classes \<open>Account\<close> and \<open>Tenant\<close>, with the argument order of
  their constructor calls.\<close>

record account =
  username :: string
  password :: string
  name :: string
  surname :: string
  email :: string
  role :: string

record tenant =
  tenant_id :: tenant_id
  tenant_name :: string
  owner :: string
  desc :: string

definition Account :: "string \<Rightarrow> string \<Rightarrow> string \<Rightarrow> string \<Rightarrow> string \<Rightarrow> string \<Rightarrow> account" where
  "Account u p n s e r =
     \<lparr>username = u, password = p, name = n, surname = s, email = e, role = r\<rparr>"

definition Tenant :: "tenant_id \<Rightarrow> string \<Rightarrow> string \<Rightarrow> string \<Rightarrow> tenant" where
  "Tenant i n ow d = \<lparr>tenant_id = i, tenant_name = n, owner = ow, desc = d\<rparr>"

subsection \<open>Components\<close>

text \<open>
  A component is a plugin object. The runtime probes it four ways, and the model keeps
  exactly what is probed: the two \<open>issubclass\<close> tests of \<open>unregister\<close>, the
  \<open>hasattr(_, "start")\<close> test of \<open>register\<close> and the \<open>hasattr(_, 'modules')\<close> test of
  \<open>remove_tenant\<close> (\<open>None\<close> is an absent attribute). A hook is plugin code; the model
  records whether it returns or raises. A module carries the outcome of its own teardown,
  which the component's \<open>remove_module\<close> runs.
\<close>

datatype hook = Returns | Raises error

record module =
  module_id :: nat
  m_tenant_id :: tenant_id
  teardown :: hook

record component =
  path :: string
  is_module_worker :: bool
  is_empower_app :: bool
  start :: "hook option"
  modules :: "(nat \<times> module) list option"
  remove_handlers :: hook

subsection \<open>The state\<close>

text \<open>
  \<open>trace\<close> is the order of effects: one event for each successful \<open>session.commit()\<close>
  (with the table it writes),
  each \<open>session.rollback()\<close>, each write to an in-memory dictionary or attribute (with
  its name) and each plugin hook that is called.
\<close>

datatype event = Commit string | Rollback | Mutate string | Hook string

record world =
  tbl_accounts :: "tbl_account list"
  tbl_tenants :: "tbl_tenant list"
  tbl_pending_tenants :: "tbl_pending_tenant list"
  components :: "(string \<times> component) list"
  accounts :: "(string \<times> account) list"
  tenants :: "(tenant_id \<times> tenant) list"
  trace :: "event list"

definition log :: "event \<Rightarrow> world \<Rightarrow> world" where
  "log e w = w\<lparr>trace := trace w @ [e]\<rparr>"

definition has_key :: "'k \<Rightarrow> ('k \<times> 'v) list \<Rightarrow> bool" where
  "has_key k al = (map_of al k \<noteq> None)"

text \<open>A \<open>for\<close> loop whose body may raise: the exception ends the loop and keeps the
  state reached.\<close>

fun for_each :: "('a \<Rightarrow> world \<Rightarrow> unit result \<times> world) \<Rightarrow> 'a list \<Rightarrow> world \<Rightarrow> unit result \<times> world" where
  "for_each f [] w = (Return (), w)"
| "for_each f (x # xs) w =
     (case f x w of
        (Raise e, w') \<Rightarrow> (Raise e, w')
      | (Return _, w') \<Rightarrow> for_each f xs w')"

subsection \<open>The persistence gateway\<close>

text \<open>
  Modelled from the spec: the module \<open>empower.persistence\<close> (the table declarations and
  their constraints) is not among the sources. The spec gives the store a uniqueness
  constraint on natural keys: the username of an account, the id and the name of a
  tenant, the id and the name of a pending tenant request. \<open>session.add(row)\<close> followed
  by \<open>session.commit()\<close> either commits the row or raises \<open>IntegrityError\<close> and commits
  nothing.
\<close>

definition commit_account :: "tbl_account \<Rightarrow> world \<Rightarrow> unit result \<times> world" where
  "commit_account r w =
     (if a_username r \<in> set (map a_username (tbl_accounts w)) then (Raise IntegrityError, w)
      else (Return (), log (Commit ''TblAccount'') (w\<lparr>tbl_accounts := tbl_accounts w @ [r]\<rparr>)))"

definition commit_tenant :: "tbl_tenant \<Rightarrow> world \<Rightarrow> unit result \<times> world" where
  "commit_tenant r w =
     (if t_tenant_id r \<in> set (map t_tenant_id (tbl_tenants w))
         \<or> t_tenant_name r \<in> set (map t_tenant_name (tbl_tenants w))
      then (Raise IntegrityError, w)
      else (Return (), log (Commit ''TblTenant'') (w\<lparr>tbl_tenants := tbl_tenants w @ [r]\<rparr>)))"

definition commit_pending_tenant :: "tbl_pending_tenant \<Rightarrow> world \<Rightarrow> unit result \<times> world" where
  "commit_pending_tenant r w =
     (if p_tenant_id r \<in> set (map p_tenant_id (tbl_pending_tenants w))
         \<or> p_tenant_name r \<in> set (map p_tenant_name (tbl_pending_tenants w))
      then (Raise IntegrityError, w)
      else (Return (), log (Commit ''TblPendingTenant'') (w\<lparr>tbl_pending_tenants := tbl_pending_tenants w @ [r]\<rparr>)))"

text \<open>\<open>session.delete(row); session.commit()\<close> deletes by primary key; on \<open>None\<close>
  (a query whose \<open>.first()\<close> found nothing) SQLAlchemy raises.\<close>

definition delete_account :: "tbl_account \<Rightarrow> world \<Rightarrow> world" where
  "delete_account r w =
     log (Commit ''TblAccount'') (w\<lparr>tbl_accounts := filter (\<lambda>x. a_username x \<noteq> a_username r) (tbl_accounts w)\<rparr>)"

definition delete_tenant :: "tbl_tenant option \<Rightarrow> world \<Rightarrow> unit result \<times> world" where
  "delete_tenant r w =
     (case r of
        None \<Rightarrow> (Raise UnmappedInstanceError, w)
      | Some row \<Rightarrow>
          (Return (),
           log (Commit ''TblTenant'') (w\<lparr>tbl_tenants :=
                           filter (\<lambda>x. t_tenant_id x \<noteq> t_tenant_id row) (tbl_tenants w)\<rparr>)))"


subsection \<open>generate_default_accounts\<close>

definition default_accounts :: "tbl_account list" where
  "default_accounts =
     [\<lparr>a_username = ''root'', a_password = ''root'', a_role = ''admin'',
       a_name = ''Administrator'', a_surname = '''', a_email = ''admin@empower.net''\<rparr>,
      \<lparr>a_username = ''foo'', a_password = ''foo'', a_role = ''user'',
       a_name = ''Foo'', a_surname = '''', a_email = ''foo@empower.net''\<rparr>,
      \<lparr>a_username = ''bar'', a_password = ''bar'', a_role = ''user'',
       a_name = ''Bar'', a_surname = '''', a_email = ''bar@empower.net''\<rparr>]"

text \<open>The three \<open>session.add\<close> calls are flushed by the one \<open>session.commit()\<close>; the table
  is empty at that point, so no constraint can fail.\<close>

definition generate_default_accounts :: "world \<Rightarrow> world" where
  "generate_default_accounts w =
     (if tbl_accounts w = []
      then log (Commit ''TblAccount'') (w\<lparr>tbl_accounts := tbl_accounts w @ default_accounts\<rparr>)
      else w)"

subsection \<open>Accounts\<close>

definition create_account ::
  "string \<Rightarrow> string \<Rightarrow> string \<Rightarrow> string \<Rightarrow> string \<Rightarrow> string \<Rightarrow> world \<Rightarrow> unit result \<times> world" where
  "create_account usr pwd rl nm sur em w =
     (if has_key usr (accounts w)
      then (Raise (ValueError [usr @ '' already registered'']), w)
      else
        let account = \<lparr>a_username = usr, a_password = pwd, a_role = rl,
                       a_name = nm, a_surname = sur, a_email = em\<rparr>
        in case commit_account account w of
             (Raise e, w1) \<Rightarrow> (Raise e, w1)
           | (Return _, w1) \<Rightarrow>
               (Return (),
                log (Mutate ''accounts'')
                  (w1\<lparr>accounts :=
                        AList.update (a_username account)
                          (Account (a_username account) (a_password account) (a_name account)
                             (a_surname account) (a_email account) (a_role account))
                          (accounts w1)\<rparr>)))"

subsection \<open>Modules of a component\<close>

text \<open>
  Modelled from the spec: \<open>remove_module\<close> is a method of the component
  (\<open>empower.core.module\<close>, not among the sources). The spec makes it the component's own
  module-removal operation on its \<open>modules\<close> mapping, and lets the teardown of a module
  throw in the middle of a cascade. The model runs the teardown of the module stored
  under the key: when it raises, the exception leaves \<open>remove_module\<close> and the module
  stays; when it returns, the key is deleted. A missing attribute or key raises as Python
  does.
\<close>

definition remove_module :: "string \<Rightarrow> nat \<Rightarrow> world \<Rightarrow> unit result \<times> world" where
  "remove_module cname mid w =
     (case map_of (components w) cname of
        None \<Rightarrow> (Raise (KeyError cname), w)
      | Some c \<Rightarrow>
          (case modules c of
             None \<Rightarrow> (Raise (AttributeError ''modules''), log (Hook ''remove_module'') w)
           | Some ms \<Rightarrow>
               (case map_of ms mid of
                  None \<Rightarrow> (Raise (KeyError ''module_id''), log (Hook ''remove_module'') w)
                | Some m \<Rightarrow>
                    (case teardown m of
                       Raises e \<Rightarrow> (Raise e, log (Hook ''remove_module'') w)
                     | Returns \<Rightarrow>
                         (Return (),
                          log (Mutate ''modules'')
                            (log (Hook ''remove_module'')
                               (w\<lparr>components :=
                                    AList.update cname
                                      (c\<lparr>modules := Some (AList.delete mid ms)\<rparr>)
                                      (components w)\<rparr>)))))))"

subsection \<open>Tenants\<close>

text \<open>The body of the loop over \<open>self.components.values()\<close> in \<open>remove_tenant\<close>, for the
  component registered under \<open>cname\<close>.\<close>

definition remove_running_modules :: "tenant_id \<Rightarrow> string \<Rightarrow> world \<Rightarrow> unit result \<times> world" where
  "remove_running_modules tid cname w =
     (case map_of (components w) cname of
        None \<Rightarrow> (Return (), w)
      | Some component \<Rightarrow>
          (case modules component of
             None \<Rightarrow> (Return (), w)
           | Some ms \<Rightarrow>
               let to_be_removed = map (\<lambda>(k, m). module_id m)
                                     (filter (\<lambda>(k, m). m_tenant_id m = tid) ms)
               in for_each (remove_module cname) to_be_removed w))"

definition remove_tenant :: "tenant_id \<Rightarrow> world \<Rightarrow> unit result \<times> world" where
  "remove_tenant tid w =
     (if \<not> has_key tid (tenants w) then (Raise (KeyError tid), w)
      else
        let w1 = log (Mutate ''tenants'') (w\<lparr>tenants := AList.delete tid (tenants w)\<rparr>);
            tenant = find (\<lambda>r. t_tenant_id r = tid) (tbl_tenants w1)
        in case delete_tenant tenant w1 of
             (Raise e, w2) \<Rightarrow> (Raise e, w2)
           | (Return _, w2) \<Rightarrow>
               for_each (remove_running_modules tid) (map fst (components w2)) w2)"

text \<open>\<open>tenant_id\<close> is an optional argument: \<open>None\<close> in a dictionary of tenants is never
  found, and \<open>if tenant_id:\<close> is false for \<open>None\<close> and for the empty string, in which case
  the row is built without an id and the store assigns \<open>fresh\<close> (the column default).\<close>

definition truthy :: "tenant_id option \<Rightarrow> bool" where
  "truthy t = (case t of None \<Rightarrow> False | Some s \<Rightarrow> s \<noteq> [])"

definition is_live :: "tenant_id option \<Rightarrow> world \<Rightarrow> bool" where
  "is_live t w = (case t of None \<Rightarrow> False | Some s \<Rightarrow> has_key s (tenants w))"

definition add_tenant ::
  "tenant_id \<Rightarrow> string \<Rightarrow> string \<Rightarrow> string \<Rightarrow> tenant_id option \<Rightarrow> world \<Rightarrow> tenant_id result \<times> world" where
  "add_tenant fresh ownr dsc tname tid w =
     (if is_live tid w then (Raise (ValueError [''Tenant %s exists'', the tid]), w)
      else
        let request = \<lparr>t_tenant_id = (if truthy tid then the tid else fresh),
                       t_tenant_name = tname, t_owner = ownr, t_desc = dsc\<rparr>
        in case commit_tenant request w of
             (Raise e, w1) \<Rightarrow>
               (Raise (ValueError [''Tenant name %s exists'', tname]), log Rollback w1)
           | (Return _, w1) \<Rightarrow>
               (case map_of (accounts w1) ownr of
                  None \<Rightarrow> (Raise (KeyError ownr), w1)
                | Some a \<Rightarrow>
                    (Return (t_tenant_id request),
                     log (Mutate ''tenants'')
                       (w1\<lparr>tenants :=
                             AList.update (t_tenant_id request)
                               (Tenant (t_tenant_id request) (t_tenant_name request)
                                  (username a) dsc)
                               (tenants w1)\<rparr>))))"

definition load_pending_tenant :: "tenant_id option \<Rightarrow> world \<Rightarrow> tbl_pending_tenant option" where
  "load_pending_tenant tid w =
     (case tid of
        None \<Rightarrow> None
      | Some s \<Rightarrow> find (\<lambda>r. p_tenant_id r = s) (tbl_pending_tenants w))"

definition request_tenant ::
  "tenant_id \<Rightarrow> string \<Rightarrow> string \<Rightarrow> string \<Rightarrow> tenant_id option \<Rightarrow> world \<Rightarrow> tenant_id result \<times> world" where
  "request_tenant fresh ownr dsc tname tid w =
     (if is_live tid w then (Raise (ValueError [''Tenant %s exists'', the tid]), w)
      else if load_pending_tenant tid w \<noteq> None
      then (Raise (ValueError [''Tenant %s exists'', the tid]), w)
      else
        let request = \<lparr>p_tenant_id = (if truthy tid then the tid else fresh),
                       p_tenant_name = tname, p_owner = ownr, p_desc = dsc\<rparr>
        in case commit_pending_tenant request w of
             (Raise e, w1) \<Rightarrow>
               (Raise (ValueError [''Tenant name %s exists'', tname]), log Rollback w1)
           | (Return _, w1) \<Rightarrow> (Return (p_tenant_id request), w1))"


subsection \<open>remove_account\<close>

definition remove_account :: "string \<Rightarrow> world \<Rightarrow> unit result \<times> world" where
  "remove_account usr w =
     (if usr = ''root'' then (Raise (ValueError [''Cannot removed root account'']), w)
      else
        case find (\<lambda>r. a_username r = usr) (tbl_accounts w) of
          None \<Rightarrow> (Raise (KeyError usr), w)
        | Some account \<Rightarrow>
            let w1 = delete_account account w
            in if \<not> has_key usr (accounts w1) then (Raise (KeyError usr), w1)
               else
                 let w2 = log (Mutate ''accounts'')
                            (w1\<lparr>accounts := AList.delete usr (accounts w1)\<rparr>);
                     to_be_deleted = map (\<lambda>(k, x). tenant_id x)
                                       (filter (\<lambda>(k, x). owner x = usr) (tenants w2))
                 in for_each remove_tenant to_be_deleted w2)"

subsection \<open>The component registry\<close>

text \<open>\<open>init_method(**params)\<close> is the plugin's constructor: it returns the instance or
  raises.\<close>

definition register ::
  "string \<Rightarrow> ('p \<Rightarrow> component result) \<Rightarrow> 'p \<Rightarrow> world \<Rightarrow> unit result \<times> world" where
  "register cname init_method params w =
     (if has_key cname (components w)
      then (Raise (ValueError [cname @ '' already registered'']), w)
      else
        case init_method params of
          Raise e \<Rightarrow> (Raise e, w)
        | Return inst \<Rightarrow>
            let w1 = log (Mutate ''components'')
                       (w\<lparr>components := AList.update cname inst (components w)\<rparr>);
                w2 = log (Mutate ''path'')
                       (w1\<lparr>components :=
                             AList.update cname (inst\<lparr>path := cname\<rparr>) (components w1)\<rparr>)
            in case start inst of
                 None \<Rightarrow> (Return (), w2)
               | Some Returns \<Rightarrow> (Return (), log (Hook ''start'') w2)
               | Some (Raises e) \<Rightarrow> (Raise e, log (Hook ''start'') w2))"

definition unregister :: "string \<Rightarrow> world \<Rightarrow> unit result \<times> world" where
  "unregister cname w =
     (case map_of (components w) cname of
        None \<Rightarrow> (Raise (KeyError cname), w)
      | Some worker \<Rightarrow>
          if \<not> is_module_worker worker \<and> \<not> is_empower_app worker
          then (Raise (ValueError [''Module %s cannot be removed'', cname]), w)
          else
            case (if is_module_worker worker
                  then (case modules worker of
                          None \<Rightarrow> (Raise (AttributeError ''modules''), w)
                        | Some ms \<Rightarrow>
                            for_each (remove_module cname) (map (\<lambda>(k, m). module_id m) ms) w)
                  else (Return (), w)) of
              (Raise e, w1) \<Rightarrow> (Raise e, w1)
            | (Return _, w1) \<Rightarrow>
                (case remove_handlers worker of
                   Raises e \<Rightarrow> (Raise e, log (Hook ''remove_handlers'') w1)
                 | Returns \<Rightarrow>
                     (Return (),
                      log (Mutate ''components'')
                        (log (Hook ''remove_handlers'')
                           (w1\<lparr>components := AList.delete cname (components w1)\<rparr>)))))"

subsection \<open>Startup\<close>




subsection \<open>Order of effects\<close>

text \<open>The events an operation adds to the trace of the state it starts in.\<close>

definition events_of :: "world \<Rightarrow> world \<Rightarrow> event list" where
  "events_of w w' = drop (length (trace w)) (trace w')"

text \<open>No write to the dictionary \<open>d\<close> comes before the first commit to the table
  \<open>t\<close>.\<close>

fun mutation_after_commit :: "string \<Rightarrow> string \<Rightarrow> event list \<Rightarrow> bool" where
  "mutation_after_commit t d [] = True"
| "mutation_after_commit t d (e # es) =
     (if e = Commit t then True
      else if e = Mutate d then False
      else mutation_after_commit t d es)"

subsection \<open>States the runtime reaches\<close>

text \<open>
  The \<open>modules\<close> mapping of a component holds one module per key, each under its own
  \<open>module_id\<close>: this is what the runtime expects of a plugin.
\<close>

definition keyed_modules :: "component \<Rightarrow> bool" where
  "keyed_modules c =
     (case modules c of
        None \<Rightarrow> True
      | Some ms \<Rightarrow> distinct (map fst ms) \<and> list_all (\<lambda>(k, m). module_id m = k) ms)"


text \<open>
  What holds in each of them: a dictionary has one entry per key; a tenant is stored
  under its own \<open>tenant_id\<close> and has its row in \<open>TblTenant\<close>; the usernames in memory are
  those in \<open>TblAccount\<close>.
\<close>

definition tenants_mirrored :: "world \<Rightarrow> bool" where
  "tenants_mirrored w =
     (distinct (map fst (tenants w))
      \<and> list_all (\<lambda>(k, t). tenant_id t = k \<and> k \<in> set (map t_tenant_id (tbl_tenants w)))
           (tenants w))"

definition components_keyed :: "world \<Rightarrow> bool" where
  "components_keyed w =
     (distinct (map fst (components w))
      \<and> list_all (\<lambda>(n, c). keyed_modules c) (components w))"

definition accounts_mirrored :: "world \<Rightarrow> bool" where
  "accounts_mirrored w = (set (map fst (accounts w)) = set (map a_username (tbl_accounts w)))"

definition consistent :: "world \<Rightarrow> bool" where
  "consistent w = (tenants_mirrored w \<and> components_keyed w \<and> accounts_mirrored w)"





subsection \<open>A sample state\<close>

definition root_account :: account where
  "root_account = Account ''root'' ''root'' ''Administrator'' '''' ''admin@empower.net'' ''admin''"

definition foo_account :: account where
  "foo_account = Account ''foo'' ''foo'' ''Foo'' '''' ''foo@empower.net'' ''user''"

definition bar_account :: account where
  "bar_account = Account ''bar'' ''bar'' ''Bar'' '''' ''bar@empower.net'' ''user''"

definition worker :: component where
  "worker =
     \<lparr>path = ''worker'', is_module_worker = True, is_empower_app = False, start = None,
      modules = Some [(1, \<lparr>module_id = 1, m_tenant_id = ''T1'', teardown = Returns\<rparr>),
                      (2, \<lparr>module_id = 2, m_tenant_id = ''T3'', teardown = Returns\<rparr>)],
      remove_handlers = Returns\<rparr>"

definition plain :: component where
  "plain =
     \<lparr>path = ''plain'', is_module_worker = False, is_empower_app = False, start = None,
      modules = None, remove_handlers = Returns\<rparr>"

definition faulty :: component where
  "faulty =
     \<lparr>path = '''', is_module_worker = False, is_empower_app = True,
      start = Some (Raises (Exception ''boom'')), modules = None, remove_handlers = Returns\<rparr>"

text \<open>The accounts of \<open>generate_default_accounts\<close>; \<open>foo\<close> owns the tenants T1 and T2,
  \<open>bar\<close> owns T3 and has asked for T9.\<close>

definition sample :: world where
  "sample =
     \<lparr>tbl_accounts = default_accounts,
      tbl_tenants =
        [\<lparr>t_tenant_id = ''T1'', t_tenant_name = ''one'', t_owner = ''foo'', t_desc = ''''\<rparr>,
         \<lparr>t_tenant_id = ''T2'', t_tenant_name = ''two'', t_owner = ''foo'', t_desc = ''''\<rparr>,
         \<lparr>t_tenant_id = ''T3'', t_tenant_name = ''three'', t_owner = ''bar'', t_desc = ''''\<rparr>],
      tbl_pending_tenants =
        [\<lparr>p_tenant_id = ''T9'', p_tenant_name = ''nine'', p_owner = ''bar'', p_desc = ''''\<rparr>],
      components = [(''worker'', worker), (''plain'', plain)],
      accounts = [(''root'', root_account), (''foo'', foo_account), (''bar'', bar_account)],
      tenants = [(''T1'', Tenant ''T1'' ''one'' ''foo'' ''''),
                 (''T2'', Tenant ''T2'' ''two'' ''foo'' ''''),
                 (''T3'', Tenant ''T3'' ''three'' ''bar'' '''')],
      trace = []\<rparr>"





section \<open>Properties\<close>

text \<open>
  C5. \<open>remove_account("root")\<close> raises \<open>ValueError("Cannot removed root account")\<close> (the
  spec's Forbidden) in every state, and leaves the store, the in-memory dictionaries
  and the trace as they were.
\<close>

theorem remove_account_root_forbidden:
  "remove_account ''root'' w = (Raise (ValueError [''Cannot removed root account'']), w)"
  by (simp add: remove_account_def)

text \<open>
  C6. When \<open>username\<close> is a key of the in-memory \<open>accounts\<close>, \<open>create_account\<close> raises
  \<open>ValueError("<username> already registered")\<close> (the spec's DuplicateEntity) and the
  whole state is unchanged: no row is inserted and the existing account is as it was.
\<close>

theorem create_account_duplicate:
  "has_key usr (accounts w) \<Longrightarrow>
     create_account usr pwd rl nm sur em w
       = (Raise (ValueError [usr @ '' already registered'']), w)"
  by (simp add: create_account_def)

theorem create_account_duplicate_witness:
  "has_key ''foo'' (accounts sample) \<and>
   create_account ''foo'' ''x'' ''user'' ''F'' ''G'' ''f@g'' sample
     = (Raise (ValueError [''foo already registered'']), sample)"
proof -
  have h: "has_key ''foo'' (accounts sample)"
    by (simp add: has_key_def sample_def)
  show ?thesis
    using h create_account_duplicate [OF h, of "''x''" "''user''" "''F''" "''G''" "''f@g''"]
    by simp
qed

text \<open>
  C7. When the component registered under \<open>name\<close> is neither a \<open>ModuleWorker\<close> nor an
  \<open>EmpowerApp\<close>, \<open>unregister\<close> raises \<open>ValueError("Module %s cannot be removed", name)\<close>
  (the spec's InvalidComponentType) and the whole state is unchanged: the registry entry
  and its modules stay, and the trace shows that no hook was called.
\<close>

theorem unregister_invalid_type:
  "map_of (components w) cname = Some c \<Longrightarrow> \<not> is_module_worker c \<Longrightarrow> \<not> is_empower_app c \<Longrightarrow>
     unregister cname w = (Raise (ValueError [''Module %s cannot be removed'', cname]), w)"
  by (simp add: unregister_def)

theorem unregister_invalid_type_witness:
  "map_of (components sample) ''plain'' = Some plain \<and> \<not> is_module_worker plain
   \<and> \<not> is_empower_app plain
   \<and> unregister ''plain'' sample
       = (Raise (ValueError [''Module %s cannot be removed'', ''plain'']), sample)"
proof -
  have h1: "map_of (components sample) ''plain'' = Some plain" by (simp add: sample_def)
  have h2: "\<not> is_module_worker plain" by (simp add: plain_def)
  have h3: "\<not> is_empower_app plain" by (simp add: plain_def)
  show ?thesis using h1 h2 h3 unregister_invalid_type [OF h1 h2 h3] by simp
qed

text \<open>
  C8. On a store with no account, \<open>generate_default_accounts\<close> leaves exactly three rows,
  one \<open>admin\<close> and two \<open>user\<close> accounts with the fixed credentials of
  \<open>default_accounts\<close>, written by a single commit; a second run changes nothing, so two
  runs on an empty store still give three accounts; and on a store that holds any account
  it changes nothing at all.
\<close>

theorem generate_default_accounts_idempotent:
  "(tbl_accounts w = [] \<longrightarrow>
      tbl_accounts (generate_default_accounts w) = default_accounts
      \<and> length (tbl_accounts (generate_default_accounts w)) = 3
      \<and> map a_role (tbl_accounts (generate_default_accounts w)) = [''admin'', ''user'', ''user'']
      \<and> events_of w (generate_default_accounts w) = [Commit ''TblAccount'']
      \<and> tbl_accounts (generate_default_accounts (generate_default_accounts w)) = default_accounts)
   \<and> generate_default_accounts (generate_default_accounts w) = generate_default_accounts w
   \<and> (tbl_accounts w \<noteq> [] \<longrightarrow> generate_default_accounts w = w)"
  by (simp add: generate_default_accounts_def log_def default_accounts_def events_of_def)

theorem generate_default_accounts_idempotent_witness:
  "tbl_accounts (sample\<lparr>tbl_accounts := []\<rparr>) = []
   \<and> length (tbl_accounts
        (generate_default_accounts (generate_default_accounts (sample\<lparr>tbl_accounts := []\<rparr>)))) = 3
   \<and> tbl_accounts sample \<noteq> [] \<and> generate_default_accounts sample = sample"
proof -
  have h1: "tbl_accounts (sample\<lparr>tbl_accounts := []\<rparr>) = []" by simp
  have h2: "tbl_accounts sample \<noteq> []" by (simp add: sample_def default_accounts_def)
  show ?thesis
    using h1 h2 generate_default_accounts_idempotent [of "sample\<lparr>tbl_accounts := []\<rparr>"]
      generate_default_accounts_idempotent [of sample]
    by (simp add: default_accounts_def)
qed

text \<open>
  C10. When \<open>name\<close> is free, the constructor returns an instance and its \<open>start\<close> hook
  raises \<open>e\<close>, then \<open>register\<close> raises \<open>e\<close> to its caller, the instance is in
  \<open>components\<close> under \<open>name\<close> (with its \<open>path\<close> set), and every later \<open>register\<close> with
  the same name raises \<open>ValueError("<name> already registered")\<close> (the spec's
  DuplicateEntity) without changing that state.
\<close>

theorem register_start_raises:
  assumes "\<not> has_key cname (components w)"
    and "init_method params = Return inst"
    and "start inst = Some (Raises e)"
  shows "fst (register cname init_method params w) = Raise e
    \<and> map_of (components (snd (register cname init_method params w))) cname
        = Some (inst\<lparr>path := cname\<rparr>)
    \<and> register cname init_method' params' (snd (register cname init_method params w))
        = (Raise (ValueError [cname @ '' already registered'']),
           snd (register cname init_method params w))"
  using assms
  by (simp add: register_def log_def has_key_def AList.update_conv')

theorem register_start_raises_witness:
  "\<not> has_key ''faulty'' (components sample)
   \<and> (\<lambda>u::unit. Return faulty) () = Return faulty
   \<and> start faulty = Some (Raises (Exception ''boom''))
   \<and> fst (register ''faulty'' (\<lambda>u::unit. Return faulty) () sample) = Raise (Exception ''boom'')
   \<and> has_key ''faulty'' (components (snd (register ''faulty'' (\<lambda>u::unit. Return faulty) () sample)))
   \<and> fst (register ''faulty'' (\<lambda>u::unit. Return plain) ()
            (snd (register ''faulty'' (\<lambda>u::unit. Return faulty) () sample)))
       = Raise (ValueError [''faulty already registered''])"
proof -
  have h1: "\<not> has_key ''faulty'' (components sample)"
    by (simp add: has_key_def sample_def)
  have h2: "(\<lambda>u::unit. Return faulty) () = Return faulty" by simp
  have h3: "start faulty = Some (Raises (Exception ''boom''))" by (simp add: faulty_def)
  show ?thesis
    using h1 h2 h3
      register_start_raises [of "''faulty''" sample "\<lambda>u::unit. Return faulty" "()" faulty
        "Exception ''boom''" "\<lambda>u::unit. Return plain" "()"]
    by (simp add: has_key_def)
qed

text \<open>
  C9 as stated fails when the store refuses the row: with an unknown owner, an id that
  is not live and a tenant name that is already in \<open>TblTenant\<close>, \<open>add_tenant\<close> rolls
  back and raises \<open>ValueError("Tenant name %s exists", name)\<close>; no row is committed.
\<close>

theorem add_tenant_unknown_owner_counterexample:
  "\<not> has_key ''ghost'' (accounts sample) \<and> \<not> is_live (Some ''T5'') sample
   \<and> add_tenant ''F'' ''ghost'' '''' ''one'' (Some ''T5'') sample
       = (Raise (ValueError [''Tenant name %s exists'', ''one'']), log Rollback sample)
   \<and> tbl_tenants (log Rollback sample) = tbl_tenants sample"
  by (simp add: add_tenant_def commit_tenant_def has_key_def is_live_def truthy_def sample_def
      log_def)

text \<open>
  C9, as amended. When \<open>owner\<close> is not a key of the in-memory \<open>accounts\<close>, the tenant id
  is not live, and the store accepts the row (neither its id nor its name is in
  \<open>TblTenant\<close>), \<open>add_tenant\<close> commits the row and only then raises \<open>KeyError(owner)\<close>
  from \<open>self.accounts[owner]\<close>: the row stays in the store with an owner that is no
  registered account, and the in-memory dictionaries are unchanged. When the tenant id is
  not live and the store refuses the row (its id or its name is in \<open>TblTenant\<close>),
  \<open>add_tenant\<close> rolls back and raises \<open>ValueError("Tenant name %s exists", name)\<close> (the
  spec's DuplicateEntity), whoever the owner is: no row is committed, and the tables and
  the in-memory dictionaries are unchanged.
\<close>

theorem add_tenant_unknown_owner:
  "(\<not> has_key ownr (accounts w) \<and> \<not> is_live tid w
      \<and> (if truthy tid then the tid else fresh) \<notin> set (map t_tenant_id (tbl_tenants w))
      \<and> tname \<notin> set (map t_tenant_name (tbl_tenants w)) \<longrightarrow>
    add_tenant fresh ownr dsc tname tid w
      = (Raise (KeyError ownr),
         log (Commit ''TblTenant'')
           (w\<lparr>tbl_tenants := tbl_tenants w @
                 [\<lparr>t_tenant_id = (if truthy tid then the tid else fresh),
                   t_tenant_name = tname, t_owner = ownr, t_desc = dsc\<rparr>]\<rparr>)))
   \<and> (\<not> is_live tid w
      \<and> ((if truthy tid then the tid else fresh) \<in> set (map t_tenant_id (tbl_tenants w))
          \<or> tname \<in> set (map t_tenant_name (tbl_tenants w))) \<longrightarrow>
    add_tenant fresh ownr dsc tname tid w
      = (Raise (ValueError [''Tenant name %s exists'', tname]), log Rollback w))"
  by (auto simp: add_tenant_def commit_tenant_def has_key_def Let_def log_def)

theorem add_tenant_unknown_owner_witness:
  "\<not> has_key ''ghost'' (accounts sample) \<and> \<not> is_live (Some ''T5'') sample
   \<and> fst (add_tenant ''F'' ''ghost'' '''' ''five'' (Some ''T5'') sample) = Raise (KeyError ''ghost'')
   \<and> ''T5'' \<in> set (map t_tenant_id
        (tbl_tenants (snd (add_tenant ''F'' ''ghost'' '''' ''five'' (Some ''T5'') sample))))
   \<and> tenants (snd (add_tenant ''F'' ''ghost'' '''' ''five'' (Some ''T5'') sample)) = tenants sample
   \<and> ''one'' \<in> set (map t_tenant_name (tbl_tenants sample))
   \<and> fst (add_tenant ''F'' ''foo'' '''' ''one'' (Some ''T5'') sample)
       = Raise (ValueError [''Tenant name %s exists'', ''one''])
   \<and> tbl_tenants (snd (add_tenant ''F'' ''foo'' '''' ''one'' (Some ''T5'') sample))
       = tbl_tenants sample
   \<and> tenants (snd (add_tenant ''F'' ''foo'' '''' ''one'' (Some ''T5'') sample)) = tenants sample"
proof -
  have h1: "\<not> has_key ''ghost'' (accounts sample)" by (simp add: has_key_def sample_def)
  have h2: "\<not> is_live (Some ''T5'') sample" by (simp add: is_live_def has_key_def sample_def)
  have h3: "(if truthy (Some ''T5'') then the (Some ''T5'') else ''F'')
              \<notin> set (map t_tenant_id (tbl_tenants sample))"
    by (simp add: truthy_def sample_def)
  have h4: "''five'' \<notin> set (map t_tenant_name (tbl_tenants sample))" by (simp add: sample_def)
  have h5: "''one'' \<in> set (map t_tenant_name (tbl_tenants sample))" by (simp add: sample_def)
  show ?thesis
    using h1 h2 h3 h4 h5
      add_tenant_unknown_owner [of "''ghost''" sample "Some ''T5''" "''F''" "''five''" "''''"]
      add_tenant_unknown_owner [of "''foo''" sample "Some ''T5''" "''F''" "''one''" "''''"]
    by (simp add: log_def truthy_def)
qed

subsection \<open>The order of commits and memory writes\<close>

text \<open>A loop adds the events of its iterations, whatever the iteration at which it
  stops.\<close>

lemma for_each_events:
  assumes "\<And>x w. \<exists>es. trace (snd (f x w)) = trace w @ es \<and> set es \<subseteq> A"
  shows "\<exists>es. trace (snd (for_each f xs w)) = trace w @ es \<and> set es \<subseteq> A"
proof (induction xs arbitrary: w)
  case Nil
  show ?case by simp
next
  case (Cons x xs)
  obtain r w1 where fx: "f x w = (r, w1)" by (cases "f x w")
  from assms [of x w] fx obtain es1 where e1: "trace w1 = trace w @ es1" "set es1 \<subseteq> A"
    by auto
  show ?case
  proof (cases r)
    case (Raise e)
    with fx e1 show ?thesis by simp
  next
    case (Return u)
    from Cons.IH [of w1] obtain es2
      where e2: "trace (snd (for_each f xs w1)) = trace w1 @ es2" "set es2 \<subseteq> A" by blast
    have "trace (snd (for_each f (x # xs) w)) = trace w @ (es1 @ es2)"
      using fx Return e1 e2 by simp
    moreover have "set (es1 @ es2) \<subseteq> A" using e1 e2 by simp
    ultimately show ?thesis by blast
  qed
qed

lemma remove_module_events:
  "\<exists>es. trace (snd (remove_module n m w)) = trace w @ es
        \<and> set es \<subseteq> {Hook ''remove_module'', Mutate ''modules''}"
  by (simp add: remove_module_def log_def split: option.split hook.split)

lemma remove_running_modules_events:
  "\<exists>es. trace (snd (remove_running_modules tid n w)) = trace w @ es
        \<and> set es \<subseteq> {Hook ''remove_module'', Mutate ''modules''}"
proof -
  have "\<exists>es. trace (snd (for_each (remove_module n) ids w)) = trace w @ es
        \<and> set es \<subseteq> {Hook ''remove_module'', Mutate ''modules''}" for ids
    by (rule for_each_events) (rule remove_module_events)
  then show ?thesis
    by (simp add: remove_running_modules_def split: option.split)
qed

lemma remove_tenant_events:
  "\<exists>es. trace (snd (remove_tenant tid w)) = trace w @ es"
proof (cases "has_key tid (tenants w)")
  case False
  then show ?thesis by (simp add: remove_tenant_def)
next
  case True
  define w1 where "w1 = log (Mutate ''tenants'') (w\<lparr>tenants := AList.delete tid (tenants w)\<rparr>)"
  have t1: "trace w1 = trace w @ [Mutate ''tenants'']" by (simp add: w1_def log_def)
  show ?thesis
  proof (cases "find (\<lambda>r. t_tenant_id r = tid) (tbl_tenants w1)")
    case None
    with True t1 show ?thesis
      by (simp add: remove_tenant_def delete_tenant_def w1_def [symmetric])
  next
    case (Some row)
    define w2 where "w2 = log (Commit ''TblTenant'')
       (w1\<lparr>tbl_tenants := filter (\<lambda>x. t_tenant_id x \<noteq> t_tenant_id row) (tbl_tenants w1)\<rparr>)"
    have t2: "trace w2 = trace w @ [Mutate ''tenants'', Commit ''TblTenant'']"
      by (simp add: w2_def log_def t1)
    have "\<exists>es. trace (snd (for_each (remove_running_modules tid) (map fst (components w2)) w2))
            = trace w2 @ es \<and> set es \<subseteq> {Hook ''remove_module'', Mutate ''modules''}"
      by (rule for_each_events) (rule remove_running_modules_events)
    then obtain es where
      "trace (snd (for_each (remove_running_modules tid) (map fst (components w2)) w2))
         = trace w2 @ es" by blast
    moreover have "remove_tenant tid w
        = for_each (remove_running_modules tid) (map fst (components w2)) w2"
      using True Some
      by (simp add: remove_tenant_def delete_tenant_def w1_def [symmetric] w2_def [symmetric])
    ultimately show ?thesis using t2 by simp
  qed
qed

text \<open>The first effect of \<open>remove_tenant\<close> on a live tenant is the deletion of the
  in-memory entry.\<close>

lemma remove_tenant_first_event:
  assumes "has_key tid (tenants w)"
  shows "\<exists>es. events_of w (snd (remove_tenant tid w)) = Mutate ''tenants'' # es"
proof -
  define w1 where "w1 = log (Mutate ''tenants'') (w\<lparr>tenants := AList.delete tid (tenants w)\<rparr>)"
  have t1: "trace w1 = trace w @ [Mutate ''tenants'']" by (simp add: w1_def log_def)
  show ?thesis
  proof (cases "find (\<lambda>r. t_tenant_id r = tid) (tbl_tenants w1)")
    case None
    with assms t1 show ?thesis
      by (simp add: remove_tenant_def delete_tenant_def w1_def [symmetric] events_of_def)
  next
    case (Some row)
    define w2 where "w2 = log (Commit ''TblTenant'')
       (w1\<lparr>tbl_tenants := filter (\<lambda>x. t_tenant_id x \<noteq> t_tenant_id row) (tbl_tenants w1)\<rparr>)"
    have t2: "trace w2 = trace w @ [Mutate ''tenants'', Commit ''TblTenant'']"
      by (simp add: w2_def log_def t1)
    have "\<exists>es. trace (snd (for_each (remove_running_modules tid) (map fst (components w2)) w2))
            = trace w2 @ es \<and> set es \<subseteq> {Hook ''remove_module'', Mutate ''modules''}"
      by (rule for_each_events) (rule remove_running_modules_events)
    then obtain es where
      "trace (snd (for_each (remove_running_modules tid) (map fst (components w2)) w2))
         = trace w2 @ es" by blast
    moreover have "remove_tenant tid w
        = for_each (remove_running_modules tid) (map fst (components w2)) w2"
      using assms Some
      by (simp add: remove_tenant_def delete_tenant_def w1_def [symmetric] w2_def [symmetric])
    ultimately show ?thesis using t2 by (simp add: events_of_def)
  qed
qed

lemma remove_account_events:
  "mutation_after_commit ''TblAccount'' ''accounts'' (events_of w (snd (remove_account usr w)))"
proof (cases "usr = ''root''")
  case True
  then show ?thesis by (simp add: remove_account_def events_of_def)
next
  case False
  show ?thesis
  proof (cases "find (\<lambda>r. a_username r = usr) (tbl_accounts w)")
    case None
    with False show ?thesis by (simp add: remove_account_def events_of_def)
  next
    case (Some row)
    define w1 where "w1 = delete_account row w"
    have t1: "trace w1 = trace w @ [Commit ''TblAccount'']"
      by (simp add: w1_def delete_account_def log_def)
    show ?thesis
    proof (cases "has_key usr (accounts w1)")
      case False
      with \<open>usr \<noteq> ''root''\<close> Some t1 show ?thesis
        by (simp add: remove_account_def events_of_def w1_def [symmetric])
    next
      case True
      define w2 where "w2 = log (Mutate ''accounts'')
                            (w1\<lparr>accounts := AList.delete usr (accounts w1)\<rparr>)"
      define ids where "ids = map (\<lambda>(k, x). tenant_id x)
                                       (filter (\<lambda>(k, x). owner x = usr) (tenants w2))"
      have t2: "trace w2 = trace w @ [Commit ''TblAccount'', Mutate ''accounts'']"
        by (simp add: w2_def log_def t1)
      have "\<exists>es. trace (snd (for_each remove_tenant ids w2)) = trace w2 @ es \<and> set es \<subseteq> UNIV"
        by (rule for_each_events) (use remove_tenant_events in simp)
      then obtain es where "trace (snd (for_each remove_tenant ids w2)) = trace w2 @ es"
        by blast
      moreover have "remove_account usr w = for_each remove_tenant ids w2"
        using \<open>usr \<noteq> ''root''\<close> Some True
        by (simp add: remove_account_def w1_def [symmetric] Let_def w2_def [symmetric]
            ids_def [symmetric])
      ultimately show ?thesis using t2 by (simp add: events_of_def)
    qed
  qed
qed

lemma create_account_events:
  "mutation_after_commit ''TblAccount'' ''accounts''
     (events_of w (snd (create_account usr pwd rl nm sur em w)))"
  by (simp add: create_account_def commit_account_def log_def events_of_def Let_def)

lemma add_tenant_events:
  "mutation_after_commit ''TblTenant'' ''tenants''
     (events_of w (snd (add_tenant fresh ownr dsc tname tid w)))"
  by (simp add: add_tenant_def commit_tenant_def log_def events_of_def Let_def
      split: option.split)

lemma register_events:
  "Commit t \<notin> set (events_of w (snd (register cname init_method params w)))"
  by (simp add: register_def log_def events_of_def Let_def split: option.split result.split
      hook.split)

lemma unregister_events:
  "Commit t \<notin> set (events_of w (snd (unregister cname w)))"
proof (cases "map_of (components w) cname")
  case None
  then show ?thesis by (simp add: unregister_def events_of_def)
next
  case (Some c)
  define r where "r = (if is_module_worker c
                  then (case modules c of
                          None \<Rightarrow> (Raise (AttributeError ''modules''), w)
                        | Some ms \<Rightarrow>
                            for_each (remove_module cname) (map (\<lambda>(k, m). module_id m) ms) w)
                  else (Return (), w))"
  have "\<exists>es. trace (snd (for_each (remove_module cname) ids w)) = trace w @ es
        \<and> set es \<subseteq> {Hook ''remove_module'', Mutate ''modules''}" for ids
    by (rule for_each_events) (rule remove_module_events)
  then have "\<exists>es. trace (snd r) = trace w @ es
        \<and> set es \<subseteq> {Hook ''remove_module'', Mutate ''modules''}"
    by (simp add: r_def split: option.split)
  then obtain es where es: "trace (snd r) = trace w @ es"
      "set es \<subseteq> {Hook ''remove_module'', Mutate ''modules''}" by blast
  then have no: "Commit t \<notin> set es" by auto
  obtain x w1 where r: "r = (x, w1)" by (cases r)
  have "unregister cname w =
     (if \<not> is_module_worker c \<and> \<not> is_empower_app c
          then (Raise (ValueError [''Module %s cannot be removed'', cname]), w)
          else
            case r of
              (Raise e, w1) \<Rightarrow> (Raise e, w1)
            | (Return _, w1) \<Rightarrow>
                (case remove_handlers c of
                   Raises e \<Rightarrow> (Raise e, log (Hook ''remove_handlers'') w1)
                 | Returns \<Rightarrow>
                     (Return (),
                      log (Mutate ''components'')
                        (log (Hook ''remove_handlers'')
                           (w1\<lparr>components := AList.delete cname (components w1)\<rparr>)))))"
    using Some by (simp add: unregister_def r_def)
  then show ?thesis using es no r
    by (simp add: events_of_def log_def split: result.split hook.split)
qed

text \<open>
  C2 as stated fails for \<open>remove_tenant\<close>: its first effect is
  \<open>del self.tenants[tenant_id]\<close>, and the commit that deletes the row comes after it.
\<close>

theorem remove_tenant_memory_first_counterexample:
  "has_key ''T1'' (tenants sample)
   \<and> events_of sample (snd (remove_tenant ''T1'' sample))
       = [Mutate ''tenants'', Commit ''TblTenant'', Hook ''remove_module'', Mutate ''modules'']
   \<and> \<not> mutation_after_commit ''TblTenant'' ''tenants''
          (events_of sample (snd (remove_tenant ''T1'' sample)))"
  by (simp add: remove_tenant_def delete_tenant_def remove_running_modules_def
      remove_module_def has_key_def sample_def log_def events_of_def worker_def plain_def
      Tenant_def)

text \<open>
  C2, as amended. \<open>create_account\<close> and \<open>remove_account\<close> write to \<open>accounts\<close> only after
  their commit to \<open>TblAccount\<close>, and \<open>add_tenant\<close> writes to \<open>tenants\<close> only after its
  commit to \<open>TblTenant\<close>; \<open>register\<close> and \<open>unregister\<close> never commit: components are not
  persisted.
\<close>

theorem memory_mutation_order:
  "mutation_after_commit ''TblAccount'' ''accounts''
     (events_of w (snd (create_account usr pwd rl nm sur em w)))
   \<and> mutation_after_commit ''TblAccount'' ''accounts'' (events_of w (snd (remove_account usr w)))
   \<and> mutation_after_commit ''TblTenant'' ''tenants''
       (events_of w (snd (add_tenant fresh ownr dsc tname tid w)))
   \<and> Commit t \<notin> set (events_of w (snd (register cname init_method params w)))
   \<and> Commit t \<notin> set (events_of w (snd (unregister cname w)))"
  by (simp add: create_account_events remove_account_events add_tenant_events
      register_events unregister_events)

subsection \<open>Pending tenant requests\<close>

text \<open>
  C1 as stated fails: \<open>add_tenant\<close> never reads \<open>TblPendingTenant\<close>. With a pending
  request for T9 in the store, \<open>add_tenant\<close> with the id T9 returns T9 and creates the
  tenant.
\<close>

theorem add_tenant_pending_counterexample:
  "load_pending_tenant (Some ''T9'') sample \<noteq> None
   \<and> fst (add_tenant ''F'' ''bar'' '''' ''nine'' (Some ''T9'') sample) = Return ''T9''
   \<and> map_of (tenants (snd (add_tenant ''F'' ''bar'' '''' ''nine'' (Some ''T9'') sample))) ''T9''
       = Some (Tenant ''T9'' ''nine'' ''bar'' '''')
   \<and> map_of (tenants sample) ''T9'' = None"
  by (simp add: add_tenant_def commit_tenant_def load_pending_tenant_def is_live_def truthy_def
      has_key_def sample_def log_def bar_account_def Account_def AList.update_conv')

text \<open>
  C1, as amended. The duplicate-id check of \<open>add_tenant\<close> consults the live tenant map
  only: with a live id it raises \<open>ValueError("Tenant %s exists", id)\<close> (the spec's
  DuplicateEntity) and changes nothing; with an id that has a pending request but is not
  live, it creates the tenant whenever the store accepts the row and the owner is a
  registered account, and the pending request stays. It is \<open>request_tenant\<close> that raises
  \<open>ValueError("Tenant %s exists", id)\<close> for an id with a pending request, changing
  nothing.
\<close>

theorem add_tenant_ignores_pending:
  "(is_live tid w \<longrightarrow>
      add_tenant fresh ownr dsc tname tid w
        = (Raise (ValueError [''Tenant %s exists'', the tid]), w))
   \<and> (load_pending_tenant tid w \<noteq> None \<and> \<not> is_live tid w \<and> truthy tid
        \<and> the tid \<notin> set (map t_tenant_id (tbl_tenants w))
        \<and> tname \<notin> set (map t_tenant_name (tbl_tenants w))
        \<and> map_of (accounts w) ownr = Some a \<longrightarrow>
      fst (add_tenant fresh ownr dsc tname tid w) = Return (the tid)
      \<and> map_of (tenants (snd (add_tenant fresh ownr dsc tname tid w))) (the tid)
          = Some (Tenant (the tid) tname (username a) dsc)
      \<and> tbl_pending_tenants (snd (add_tenant fresh ownr dsc tname tid w))
          = tbl_pending_tenants w)
   \<and> (load_pending_tenant tid w \<noteq> None \<longrightarrow>
      request_tenant fresh ownr dsc tname tid w
        = (Raise (ValueError [''Tenant %s exists'', the tid]), w))"
  by (simp add: add_tenant_def request_tenant_def commit_tenant_def log_def Let_def
      AList.update_conv')

theorem add_tenant_ignores_pending_witness:
  "is_live (Some ''T1'') sample
   \<and> fst (add_tenant ''F'' ''bar'' '''' ''nine'' (Some ''T1'') sample)
       = Raise (ValueError [''Tenant %s exists'', ''T1''])
   \<and> load_pending_tenant (Some ''T9'') sample \<noteq> None \<and> \<not> is_live (Some ''T9'') sample
   \<and> fst (add_tenant ''F'' ''bar'' '''' ''nine'' (Some ''T9'') sample) = Return ''T9''
   \<and> fst (request_tenant ''F'' ''bar'' '''' ''nine'' (Some ''T9'') sample)
       = Raise (ValueError [''Tenant %s exists'', ''T9''])"
proof -
  have h1: "is_live (Some ''T1'') sample" by (simp add: is_live_def has_key_def sample_def)
  have h2: "load_pending_tenant (Some ''T9'') sample \<noteq> None"
    by (simp add: load_pending_tenant_def sample_def)
  have h3: "\<not> is_live (Some ''T9'') sample" by (simp add: is_live_def has_key_def sample_def)
  have h4: "truthy (Some ''T9'')" by (simp add: truthy_def)
  have h5: "the (Some ''T9'') \<notin> set (map t_tenant_id (tbl_tenants sample))"
    by (simp add: sample_def)
  have h6: "''nine'' \<notin> set (map t_tenant_name (tbl_tenants sample))" by (simp add: sample_def)
  have h7: "map_of (accounts sample) ''bar'' = Some bar_account" by (simp add: sample_def)
  show ?thesis
    using h1 h2 h3 h4 h5 h6 h7
      add_tenant_ignores_pending [of "Some ''T1''" sample "''F''" "''bar''" "''''" "''nine''"
        bar_account]
      add_tenant_ignores_pending [of "Some ''T9''" sample "''F''" "''bar''" "''''" "''nine''"
        bar_account]
    by simp
qed

subsection \<open>Every state the runtime reaches is consistent\<close>

text \<open>Each part of \<open>consistent\<close> reads a few fields only.\<close>

lemma tenants_mirrored_frame [simp]:
  "tenants_mirrored (w\<lparr>components := cs\<rparr>) = tenants_mirrored w"
  "tenants_mirrored (w\<lparr>accounts := ac\<rparr>) = tenants_mirrored w"
  "tenants_mirrored (w\<lparr>tbl_accounts := ta\<rparr>) = tenants_mirrored w"
  "tenants_mirrored (w\<lparr>tbl_pending_tenants := tp\<rparr>) = tenants_mirrored w"
  "tenants_mirrored (w\<lparr>trace := tr\<rparr>) = tenants_mirrored w"
  by (simp_all add: tenants_mirrored_def)

lemma components_keyed_frame [simp]:
  "components_keyed (w\<lparr>tenants := ts\<rparr>) = components_keyed w"
  "components_keyed (w\<lparr>tbl_tenants := tt\<rparr>) = components_keyed w"
  "components_keyed (w\<lparr>accounts := ac\<rparr>) = components_keyed w"
  "components_keyed (w\<lparr>tbl_accounts := ta\<rparr>) = components_keyed w"
  "components_keyed (w\<lparr>tbl_pending_tenants := tp\<rparr>) = components_keyed w"
  "components_keyed (w\<lparr>trace := tr\<rparr>) = components_keyed w"
  by (simp_all add: components_keyed_def)

lemma accounts_mirrored_frame [simp]:
  "accounts_mirrored (w\<lparr>tenants := ts\<rparr>) = accounts_mirrored w"
  "accounts_mirrored (w\<lparr>tbl_tenants := tt\<rparr>) = accounts_mirrored w"
  "accounts_mirrored (w\<lparr>components := cs\<rparr>) = accounts_mirrored w"
  "accounts_mirrored (w\<lparr>tbl_pending_tenants := tp\<rparr>) = accounts_mirrored w"
  "accounts_mirrored (w\<lparr>trace := tr\<rparr>) = accounts_mirrored w"
  by (simp_all add: accounts_mirrored_def)

lemma mirrored_log [simp]:
  "tenants_mirrored (log e w) = tenants_mirrored w"
  "components_keyed (log e w) = components_keyed w"
  "accounts_mirrored (log e w) = accounts_mirrored w"
  by (simp_all add: log_def)

lemma consistent_log [simp]: "consistent (log e w) = consistent w"
  by (simp add: consistent_def)

























subsection \<open>The cascade of remove_tenant\<close>

text \<open>When no module of the removed tenant raises in its teardown, each loop runs to its
  end; the lemmas give the state it ends in and the events it adds.\<close>

lemma world_same [simp]: "w\<lparr>components := components w, trace := trace w\<rparr> = w"
  by simp




















subsection \<open>The cascade of remove_account\<close>










end
